theory Spec2Isabelle
  imports Complex_Main
begin

section \<open>The stall-detection callback of script/exercice7.py\<close>

text \<open>
  The script registers \<^verbatim>\<open>callback\<close> with the solver, which calls it during the
  search. The callback keeps two fields between calls (class \<^verbatim>\<open>CallbackData\<close>),
  reads three values of the running search and the clock, and may ask the solver to stop.
  The model below follows the source line by line: the mutable object is passed in and
  returned, the clock reading is an argument, the request to stop is the returned decision,
  and every Python exception the body can raise is an error value.
\<close>

subsection \<open>Python floats\<close>

text \<open>
  A Python float is a finite number, one of the two infinities, or not-a-number. Finite
  values are modelled as reals with exact arithmetic: rounding, overflow of a finite
  operation and the sign of zero are not modelled. The operations are the ones the
  callback uses, with Python's behaviour on the special values.
\<close>

datatype pyfloat = Fin real | PInf | NInf | NaN

datatype py_error = ZeroDivisionError | TypeError

text \<open>\<^verbatim>\<open>a - b\<close>\<close>

fun fsub :: "pyfloat \<Rightarrow> pyfloat \<Rightarrow> pyfloat" where
  "fsub NaN _ = NaN"
| "fsub _ NaN = NaN"
| "fsub (Fin a) (Fin b) = Fin (a - b)"
| "fsub (Fin a) PInf = NInf"
| "fsub (Fin a) NInf = PInf"
| "fsub PInf PInf = NaN"
| "fsub PInf _ = PInf"
| "fsub NInf NInf = NaN"
| "fsub NInf _ = NInf"

text \<open>\<^verbatim>\<open>abs(a)\<close>\<close>

fun fabs :: "pyfloat \<Rightarrow> pyfloat" where
  "fabs (Fin a) = Fin \<bar>a\<bar>"
| "fabs PInf = PInf"
| "fabs NInf = PInf"
| "fabs NaN = NaN"

text \<open>\<^verbatim>\<open>a > b\<close>: false as soon as one side is not-a-number.\<close>

fun fgt :: "pyfloat \<Rightarrow> pyfloat \<Rightarrow> bool" where
  "fgt NaN _ = False"
| "fgt _ NaN = False"
| "fgt (Fin a) (Fin b) = (b < a)"
| "fgt (Fin a) PInf = False"
| "fgt (Fin a) NInf = True"
| "fgt PInf PInf = False"
| "fgt PInf _ = True"
| "fgt NInf _ = False"

text \<open>\<^verbatim>\<open>a == b\<close>: not-a-number is equal to nothing, itself included.\<close>

definition feq :: "pyfloat \<Rightarrow> pyfloat \<Rightarrow> bool" where
  "feq a b = (a = b \<and> a \<noteq> NaN)"

text \<open>
  \<^verbatim>\<open>max(a, b)\<close> of two arguments: Python keeps the first and replaces it only by a
  strictly greater second.
\<close>

definition py_max :: "pyfloat \<Rightarrow> pyfloat \<Rightarrow> pyfloat" where
  "py_max a b = (if fgt b a then b else a)"

text \<open>
  \<^verbatim>\<open>a / b\<close>: Python raises ZeroDivisionError on a zero divisor, whatever the
  dividend; otherwise the IEEE quotient.
\<close>

fun fdiv :: "pyfloat \<Rightarrow> pyfloat \<Rightarrow> py_error + pyfloat" where
  "fdiv a (Fin b) =
     (if b = 0 then Inl ZeroDivisionError
      else Inr (case a of
                  Fin x \<Rightarrow> Fin (x / b)
                | PInf \<Rightarrow> (if 0 < b then PInf else NInf)
                | NInf \<Rightarrow> (if 0 < b then NInf else PInf)
                | NaN \<Rightarrow> NaN))"
| "fdiv a NaN = Inr NaN"
| "fdiv (Fin x) _ = Inr (Fin 0)"
| "fdiv _ _ = Inr NaN"

subsection \<open>State, inputs and parameters\<close>

text \<open>Class \<^verbatim>\<open>CallbackData\<close> (lines 8 to 11) and its constructor.\<close>

record CallbackData =
  last_gap_change_time :: "real option"
  last_gap :: pyfloat

definition CallbackData_init :: CallbackData where
  "CallbackData_init = \<lparr>last_gap_change_time = None, last_gap = PInf\<rparr>"

text \<open>
  The place the solver calls from (\<^verbatim>\<open>where\<close>); the callback only acts on
  \<^verbatim>\<open>GRB.Callback.MIP\<close>.
\<close>

datatype cb_where =
  POLLING | PRESOLVE | SIMPLEX | MIP | MIPSOL | MIPNODE | MESSAGE | BARRIER | MULTIOBJ | IIS

text \<open>The three values the callback reads with \<^verbatim>\<open>model.cbGet\<close>.\<close>

record model =
  MIP_SOLCNT :: int
  MIP_OBJBND :: pyfloat
  MIP_OBJBST :: pyfloat

text \<open>
  The two module-level parameters the callback reads (lines 59 and 60), and the values
  the script gives them.
\<close>

record params =
  max_time_between_gap_updates :: real
  epsilon_to_compare_gap :: real

definition script_params :: params where
  "script_params = \<lparr>max_time_between_gap_updates = 15, epsilon_to_compare_gap = 1 / 10000\<rparr>"

text \<open>
  What the call did to the solver: \<open>TERMINATE\<close> when \<^verbatim>\<open>model.terminate()\<close> was
  called (line 53), \<open>CONTINUE\<close> when the callback returned without calling it.
\<close>

datatype decision = CONTINUE | TERMINATE

subsection \<open>The callback\<close>

text \<open>Lines 28 to 31: the relative gap.\<close>

definition mip_gap :: "pyfloat \<Rightarrow> pyfloat \<Rightarrow> py_error + pyfloat" where
  "mip_gap best_obj best_bound =
     (if feq best_obj (Fin 0) then Inr PInf
      else fdiv (fabs (fsub best_obj best_bound))
                (py_max (Fin (1 / 10 ^ 10)) (fabs best_obj)))"

text \<open>
  Lines 15 to 53. \<open>now\<close> is the value of \<^verbatim>\<open>time.time()\<close>, read once on every
  path of the body. Subtracting \<^verbatim>\<open>None\<close> from it (line 47, when no time was
  stored) raises TypeError.
\<close>

definition callback ::
  "params \<Rightarrow> cb_where \<Rightarrow> model \<Rightarrow> real \<Rightarrow> CallbackData
     \<Rightarrow> py_error + (decision \<times> CallbackData)" where
  "callback p wh m now cbdata =
     (if wh \<noteq> MIP then Inr (CONTINUE, cbdata)
      else
        let solcount = MIP_SOLCNT m in
        if solcount = 0 then Inr (CONTINUE, cbdata)
        else
          let best_bound = MIP_OBJBND m; best_obj = MIP_OBJBST m in
          case mip_gap best_obj best_bound of
            Inl e \<Rightarrow> Inl e
          | Inr gap \<Rightarrow>
              if feq (last_gap cbdata) PInf then
                Inr (CONTINUE, cbdata\<lparr>last_gap := gap, last_gap_change_time := Some now\<rparr>)
              else if fgt (fsub (last_gap cbdata) gap) (Fin (epsilon_to_compare_gap p)) then
                Inr (CONTINUE, cbdata\<lparr>last_gap := gap, last_gap_change_time := Some now\<rparr>)
              else
                (case last_gap_change_time cbdata of
                   None \<Rightarrow> Inl TypeError
                 | Some t \<Rightarrow>
                     if now - t > max_time_between_gap_updates p
                     then Inr (TERMINATE, cbdata)
                     else Inr (CONTINUE, cbdata)))"

subsection \<open>A run: the calls the solver makes\<close>

text \<open>
  During \<^verbatim>\<open>model.optimize(callback_func)\<close> (line 68) the solver calls the callback
  again and again on the same \<^verbatim>\<open>CallbackData\<close> object. One call is the place it
  comes from, the values the search has then, and the clock. \<open>optimize_calls\<close> makes
  the calls of a list in order, collects the decisions, and stops at the first exception.
\<close>

record call =
  call_where :: cb_where
  call_model :: model
  call_now :: real

fun optimize_calls ::
  "params \<Rightarrow> call list \<Rightarrow> CallbackData \<Rightarrow> py_error + (decision list \<times> CallbackData)" where
  "optimize_calls p [] cbdata = Inr ([], cbdata)"
| "optimize_calls p (c # cs) cbdata =
     (case callback p (call_where c) (call_model c) (call_now c) cbdata of
        Inl e \<Rightarrow> Inl e
      | Inr (d, cbdata') \<Rightarrow>
          (case optimize_calls p cs cbdata' of
             Inl e \<Rightarrow> Inl e
           | Inr (ds, cbdata'') \<Rightarrow> Inr (d # ds, cbdata'')))"

text \<open>A snapshot of a search that has a solution, seen from the branch-and-bound loop.\<close>

definition snapshot :: "int \<Rightarrow> pyfloat \<Rightarrow> pyfloat \<Rightarrow> real \<Rightarrow> call" where
  "snapshot solcount best_obj best_bound now =
     \<lparr>call_where = MIP,
      call_model = \<lparr>MIP_SOLCNT = solcount, MIP_OBJBND = best_bound, MIP_OBJBST = best_obj\<rparr>,
      call_now = now\<rparr>"

text \<open>
  \<open>repeat_calls m ts\<close>: the solver reports the same values \<open>m\<close> from the
  branch-and-bound loop at each of the times \<open>ts\<close>.
\<close>

definition repeat_calls :: "model \<Rightarrow> real list \<Rightarrow> call list" where
  "repeat_calls m ts = map (\<lambda>t. \<lparr>call_where = MIP, call_model = m, call_now = t\<rparr>) ts"

subsection \<open>Notions used to state the properties\<close>

text \<open>\<^verbatim>\<open>a <= b\<close> on Python floats.\<close>

definition fle :: "pyfloat \<Rightarrow> pyfloat \<Rightarrow> bool" where
  "fle a b = (fgt b a \<or> feq a b)"

text \<open>
  One step of a stored gap from \<open>a\<close> to \<open>b\<close> that does not go up: it stays, it
  leaves the initial value, or it goes strictly down.
\<close>

definition noninc :: "pyfloat \<Rightarrow> pyfloat \<Rightarrow> bool" where
  "noninc a b = (b = a \<or> a = PInf \<or> fgt a b)"

text \<open>
  The states of a run keep this: a stored gap other than the initial value comes with a
  stored time.
\<close>

definition consistent :: "CallbackData \<Rightarrow> bool" where
  "consistent s = (last_gap s = PInf \<or> last_gap_change_time s \<noteq> None)"

section \<open>Properties\<close>

subsection \<open>Float operations\<close>

lemmas run_simps =
  callback_def mip_gap_def py_max_def feq_def snapshot_def script_params_def
  CallbackData_init_def repeat_calls_def Let_def

lemma py_max_Fin: "py_max (Fin c) (Fin x) = Fin (max c x)"
  by (auto simp: py_max_def max_def)

lemma floor_pos: "(0::real) < 1 / 10 ^ 10"
  by simp

lemma py_max_floor_cases:
  assumes "0 < c"
  shows "(\<exists>x. 0 < x \<and> py_max (Fin c) (fabs a) = Fin x) \<or> py_max (Fin c) (fabs a) = PInf"
proof (cases a)
  case (Fin x)
  have "0 < max c \<bar>x\<bar>"
    using assms by (simp add: less_max_iff_disj)
  with Fin show ?thesis
    by (simp add: py_max_Fin)
next
  case PInf
  then show ?thesis by (simp add: py_max_def)
next
  case NInf
  then show ?thesis by (simp add: py_max_def)
next
  case NaN
  with assms show ?thesis by (simp add: py_max_def)
qed

lemma fdiv_pos: "0 < x \<Longrightarrow> \<exists>g. fdiv a (Fin x) = Inr g"
  by simp

lemma fdiv_PInf: "\<exists>g. fdiv a PInf = Inr g"
  by (cases a) simp_all

lemma mip_gap_total: "\<exists>g. mip_gap best_obj best_bound = Inr g"
proof (cases "feq best_obj (Fin 0)")
  case True
  then show ?thesis by (simp add: mip_gap_def)
next
  case False
  from py_max_floor_cases [OF floor_pos, of best_obj]
  have "\<exists>g. fdiv (fabs (fsub best_obj best_bound))
                 (py_max (Fin (1 / 10 ^ 10)) (fabs best_obj)) = Inr g"
    using fdiv_PInf fdiv_pos by metis
  with False show ?thesis
    by (simp only: mip_gap_def if_False)
qed

lemma fgt_fsub_nonneg: "fgt (fsub a g) (Fin e) \<Longrightarrow> 0 \<le> e \<Longrightarrow> fgt a g"
  by (cases a; cases g) auto

lemma fgt_trans: "fgt a b \<Longrightarrow> fgt b c \<Longrightarrow> fgt a c"
  by (cases a; cases b; cases c) auto

lemma fgt_asym: "fgt a b \<Longrightarrow> \<not> fgt b a"
  by (cases a; cases b) auto

lemma fgt_irrefl: "\<not> fgt a a"
  by (cases a) auto

lemma not_fgt_PInf: "\<not> fgt a PInf"
  by (cases a) auto

lemma noninc_refl: "noninc a a"
  by (simp add: noninc_def)

lemma noninc_trans: "noninc a b \<Longrightarrow> noninc b c \<Longrightarrow> noninc a c"
  unfolding noninc_def using fgt_trans not_fgt_PInf by blast

lemma noninc_not_fgt: "noninc a b \<Longrightarrow> \<not> fgt b a"
  unfolding noninc_def using fgt_asym fgt_irrefl not_fgt_PInf by blast

lemma noninc_fle: "noninc a b \<Longrightarrow> b = NaN \<or> fle b a"
  unfolding noninc_def fle_def feq_def by (cases a; cases b) auto

subsection \<open>Every call in a run returns\<close>

lemma init_consistent: "consistent CallbackData_init"
  by (simp add: consistent_def CallbackData_init_def)

lemma callback_consistent:
  assumes "callback p wh m now s = Inr (d, s')" and "consistent s"
  shows "consistent s'"
  using assms
  by (auto simp: callback_def consistent_def feq_def Let_def
           split: if_splits sum.splits option.splits)

lemma callback_total:
  assumes "consistent s"
  shows "\<exists>d s'. callback p wh m now s = Inr (d, s')"
proof -
  obtain g where g: "mip_gap (MIP_OBJBST m) (MIP_OBJBND m) = Inr g"
    using mip_gap_total by blast
  show ?thesis
    using assms g
    by (auto simp: callback_def consistent_def feq_def Let_def split: option.splits)
qed

lemma optimize_calls_total:
  "consistent s \<Longrightarrow> \<exists>ds s'. optimize_calls p cs s = Inr (ds, s') \<and> consistent s'"
proof (induction cs arbitrary: s)
  case Nil
  then show ?case by simp
next
  case (Cons c cs)
  obtain d s1 where c: "callback p (call_where c) (call_model c) (call_now c) s = Inr (d, s1)"
    using callback_total [OF Cons.prems] by blast
  have "consistent s1"
    using callback_consistent [OF c Cons.prems] .
  from Cons.IH [OF this] obtain ds s'
    where "optimize_calls p cs s1 = Inr (ds, s')" and "consistent s'"
    by blast
  with c show ?case by simp
qed

lemma reached_consistent:
  assumes "optimize_calls p cs s = Inr (ds, s')" and "consistent s"
  shows "consistent s'"
  using optimize_calls_total [OF assms(2), of p cs] assms(1) by auto

subsection \<open>The stored gap over a run\<close>

lemma callback_noninc:
  assumes "callback p wh m now s = Inr (d, s')" and "0 \<le> epsilon_to_compare_gap p"
  shows "noninc (last_gap s) (last_gap s')"
  using assms
  by (auto simp: callback_def noninc_def feq_def Let_def dest: fgt_fsub_nonneg
           split: if_splits sum.splits option.splits)

lemma optimize_calls_noninc:
  assumes "0 \<le> epsilon_to_compare_gap p"
  shows "optimize_calls p cs s = Inr (ds, s') \<Longrightarrow> noninc (last_gap s) (last_gap s')"
proof (induction cs arbitrary: s ds)
  case Nil
  then show ?case by (simp add: noninc_refl)
next
  case (Cons c cs)
  from Cons.prems obtain d s1 ds1 where
    c: "callback p (call_where c) (call_model c) (call_now c) s = Inr (d, s1)"
    and r: "optimize_calls p cs s1 = Inr (ds1, s')"
    by (auto split: sum.splits prod.splits)
  show ?case
    using noninc_trans [OF callback_noninc [OF c assms] Cons.IH [OF r]] .
qed

subsection \<open>The stored time over a run\<close>

lemma callback_time_set:
  assumes "callback p wh m now s = Inr (d, s')" and "consistent s"
    and "wh = MIP \<longrightarrow> 0 \<le> MIP_SOLCNT m"
  shows "last_gap_change_time s' \<noteq> None \<longleftrightarrow>
           last_gap_change_time s \<noteq> None \<or> (wh = MIP \<and> 0 < MIP_SOLCNT m)"
  using assms
  by (auto simp: callback_def consistent_def feq_def Let_def
           split: if_splits sum.splits option.splits)

lemma optimize_calls_time_set:
  assumes "optimize_calls p cs s = Inr (ds, s')" and "consistent s"
    and "\<forall>c\<in>set cs. call_where c = MIP \<longrightarrow> 0 \<le> MIP_SOLCNT (call_model c)"
  shows "last_gap_change_time s' \<noteq> None \<longleftrightarrow>
           last_gap_change_time s \<noteq> None \<or>
           (\<exists>c\<in>set cs. call_where c = MIP \<and> 0 < MIP_SOLCNT (call_model c))"
  using assms
proof (induction cs arbitrary: s ds)
  case Nil
  then show ?case by simp
next
  case (Cons c cs)
  from Cons.prems(1) obtain d s1 ds1 where
    c: "callback p (call_where c) (call_model c) (call_now c) s = Inr (d, s1)"
    and r: "optimize_calls p cs s1 = Inr (ds1, s')"
    by (auto split: sum.splits prod.splits)
  have s1: "consistent s1"
    using callback_consistent [OF c Cons.prems(2)] .
  have step: "last_gap_change_time s1 \<noteq> None \<longleftrightarrow>
           last_gap_change_time s \<noteq> None \<or>
           (call_where c = MIP \<and> 0 < MIP_SOLCNT (call_model c))"
    using callback_time_set [OF c Cons.prems(2)] Cons.prems(3) by simp
  have rest: "last_gap_change_time s' \<noteq> None \<longleftrightarrow>
           last_gap_change_time s1 \<noteq> None \<or>
           (\<exists>c\<in>set cs. call_where c = MIP \<and> 0 < MIP_SOLCNT (call_model c))"
    using Cons.IH [OF r s1] Cons.prems(3) by simp
  show ?case
    unfolding rest step by auto
qed

subsection \<open>Calls that see no improvement\<close>



text \<open>
  The branch of lines 35 to 38: while the stored gap is the initial value, a call from the
  branch-and-bound loop with a solution count other than zero stores the gap and the time
  and does not stop the solver.
\<close>

lemma callback_first_solution:
  assumes "last_gap s = PInf" and "MIP_SOLCNT m \<noteq> 0"
  shows "\<exists>gap. mip_gap (MIP_OBJBST m) (MIP_OBJBND m) = Inr gap \<and>
           callback p MIP m now s =
             Inr (CONTINUE, s\<lparr>last_gap := gap, last_gap_change_time := Some now\<rparr>)"
proof -
  obtain gap where "mip_gap (MIP_OBJBST m) (MIP_OBJBND m) = Inr gap"
    using mip_gap_total by blast
  with assms show ?thesis
    by (simp add: callback_def feq_def)
qed

section \<open>The claims\<close>

subsection \<open>C1: a call in the tracking state\<close>

text \<open>
  C1. In a state reached in a run whose stored gap is no longer the initial \<open>+infinity\<close>
  (which covers every finite stored gap), a call from the branch-and-bound loop with a
  positive solution count computes a gap, finds a stored time \<open>t\<close>, and then: if
  \<open>last_gap - gap > epsilon_to_compare_gap\<close> it stores the gap and the current time and
  does not stop the solver; otherwise, if \<open>now - t > max_time_between_gap_updates\<close> it
  stops the solver and leaves the state as it is; otherwise it does not stop the solver
  and leaves the state as it is.
\<close>

theorem tracking_call_decides:
  assumes reach: "optimize_calls p cs CallbackData_init = Inr (ds, s)"
    and tracking: "last_gap s \<noteq> PInf"
    and sol: "0 < MIP_SOLCNT m"
  shows "\<exists>gap t. mip_gap (MIP_OBJBST m) (MIP_OBJBND m) = Inr gap \<and>
           last_gap_change_time s = Some t \<and>
           callback p MIP m now s =
             Inr (if fgt (fsub (last_gap s) gap) (Fin (epsilon_to_compare_gap p))
                  then (CONTINUE, s\<lparr>last_gap := gap, last_gap_change_time := Some now\<rparr>)
                  else if now - t > max_time_between_gap_updates p
                  then (TERMINATE, s)
                  else (CONTINUE, s))"
proof -
  obtain gap where g: "mip_gap (MIP_OBJBST m) (MIP_OBJBND m) = Inr gap"
    using mip_gap_total by blast
  have "consistent s"
    using reached_consistent [OF reach init_consistent] .
  with tracking obtain t where t: "last_gap_change_time s = Some t"
    by (auto simp: consistent_def)
  have "callback p MIP m now s =
             Inr (if fgt (fsub (last_gap s) gap) (Fin (epsilon_to_compare_gap p))
                  then (CONTINUE, s\<lparr>last_gap := gap, last_gap_change_time := Some now\<rparr>)
                  else if now - t > max_time_between_gap_updates p
                  then (TERMINATE, s)
                  else (CONTINUE, s))"
    using g t tracking sol by (simp add: callback_def feq_def)
  with g t show ?thesis by blast
qed

text \<open>
  At the script's parameters: after a first solution with gap 0.10 at time 0, a call at
  time 5 with gap 0.095 records the improvement, and a call at time 16 with the gap still
  0.10 stops the solver.
\<close>

theorem tracking_call_decides_witness:
  "optimize_calls script_params [snapshot 1 (Fin 10000) (Fin 9000) 0] CallbackData_init
     = Inr ([CONTINUE], \<lparr>last_gap_change_time = Some 0, last_gap = Fin (1 / 10)\<rparr>) \<and>
   callback script_params MIP
       \<lparr>MIP_SOLCNT = 1, MIP_OBJBND = Fin 9050, MIP_OBJBST = Fin 10000\<rparr> 5
       \<lparr>last_gap_change_time = Some 0, last_gap = Fin (1 / 10)\<rparr>
     = Inr (CONTINUE, \<lparr>last_gap_change_time = Some 5, last_gap = Fin (95 / 1000)\<rparr>) \<and>
   callback script_params MIP
       \<lparr>MIP_SOLCNT = 1, MIP_OBJBND = Fin 9000, MIP_OBJBST = Fin 10000\<rparr> 16
       \<lparr>last_gap_change_time = Some 0, last_gap = Fin (1 / 10)\<rparr>
     = Inr (TERMINATE, \<lparr>last_gap_change_time = Some 0, last_gap = Fin (1 / 10)\<rparr>)"
proof -
  have h: "optimize_calls script_params [snapshot 1 (Fin 10000) (Fin 9000) 0] CallbackData_init
     = Inr ([CONTINUE], \<lparr>last_gap_change_time = Some 0, last_gap = Fin (1 / 10)\<rparr>)"
    by (simp add: run_simps)
  have g1: "mip_gap (Fin 10000) (Fin 9050) = Inr (Fin (95 / 1000))"
    and g2: "mip_gap (Fin 10000) (Fin 9000) = Inr (Fin (1 / 10))"
    by (simp_all add: run_simps)
  show ?thesis
    using h
      tracking_call_decides [OF h,
        of "\<lparr>MIP_SOLCNT = 1, MIP_OBJBND = Fin 9050, MIP_OBJBST = Fin 10000\<rparr>" 5]
      tracking_call_decides [OF h,
        of "\<lparr>MIP_SOLCNT = 1, MIP_OBJBND = Fin 9000, MIP_OBJBST = Fin 10000\<rparr>" 16]
    by (simp add: g1 g2 script_params_def)
qed

subsection \<open>C2: the gap never divides by zero\<close>

text \<open>
  C2. The gap computation of lines 28 to 31 never raises ZeroDivisionError, whatever the
  two floats are. When \<open>best_obj\<close> is zero the gap is \<open>+infinity\<close>. When both values
  are finite and \<open>best_obj\<close> is not zero, the divisor \<open>max(1e-10, |best_obj|)\<close> is
  strictly positive and the gap is \<open>|best_obj - best_bound|\<close> divided by it.
\<close>

theorem mip_gap_never_divides_by_zero:
  "(\<exists>gap. mip_gap best_obj best_bound = Inr gap) \<and>
   (best_obj = Fin 0 \<longrightarrow> mip_gap best_obj best_bound = Inr PInf) \<and>
   (\<forall>a b. best_obj = Fin a \<and> best_bound = Fin b \<and> a \<noteq> 0 \<longrightarrow>
      0 < max (1 / 10 ^ 10) \<bar>a\<bar> \<and>
      mip_gap best_obj best_bound = Inr (Fin (\<bar>a - b\<bar> / max (1 / 10 ^ 10) \<bar>a\<bar>)))"
proof (intro conjI allI impI)
  show "\<exists>gap. mip_gap best_obj best_bound = Inr gap"
    by (rule mip_gap_total)
next
  assume "best_obj = Fin 0"
  then show "mip_gap best_obj best_bound = Inr PInf"
    by (simp add: mip_gap_def feq_def)
next
  fix a b :: real
  show "0 < max (1 / 10 ^ 10) \<bar>a\<bar>"
    using floor_pos by (simp only: less_max_iff_disj) simp
next
  fix a b :: real
  assume h: "best_obj = Fin a \<and> best_bound = Fin b \<and> a \<noteq> 0"
  have pos: "max (1 / 10 ^ 10) \<bar>a\<bar> \<noteq> 0"
    using floor_pos [THEN less_max_iff_disj [THEN iffD2, OF disjI1], of "\<bar>a\<bar>"] by simp
  have "py_max (Fin (1 / 10 ^ 10)) (fabs (Fin a)) = Fin (max (1 / 10 ^ 10) \<bar>a\<bar>)"
    by (simp only: fabs.simps py_max_Fin)
  with h pos show "mip_gap best_obj best_bound = Inr (Fin (\<bar>a - b\<bar> / max (1 / 10 ^ 10) \<bar>a\<bar>))"
    by (simp add: mip_gap_def feq_def del: max_less_iff_conj)
qed

theorem mip_gap_never_divides_by_zero_witness:
  "mip_gap (Fin 10000) (Fin 9000) = Inr (Fin (\<bar>10000 - 9000\<bar> / max (1 / 10 ^ 10) \<bar>10000\<bar>)) \<and>
   mip_gap (Fin 0) (Fin 1) = Inr PInf"
  using mip_gap_never_divides_by_zero [of "Fin 10000" "Fin 9000"]
    mip_gap_never_divides_by_zero [of "Fin 0" "Fin 1"]
  by simp

subsection \<open>C3: the first solution\<close>

text \<open>
  C3. The claim is that the first call with a solution stores gap and time, does not stop
  the solver, and leaves the awaiting state (stored gap \<open>+infinity\<close>) for the tracking
  state. Lemma \<open>callback_first_solution\<close> gives the first three. The last fails when the
  first solution has objective zero: the gap is then \<open>+infinity\<close>, the same value that
  marks a state with no solution yet, so the state stays awaiting. Here two calls with
  objective 0 and bound 1, at times 0 and 100: the second one takes the first-solution
  branch again, overwrites the stored time with 100 though the gap has not changed, and
  the solver is not stopped although 100 seconds have passed since the first solution.
\<close>

theorem first_solution_zero_objective_stays_awaiting:
  "optimize_calls script_params
     [snapshot 1 (Fin 0) (Fin 1) 0, snapshot 1 (Fin 0) (Fin 1) 100] CallbackData_init
   = Inr ([CONTINUE, CONTINUE], \<lparr>last_gap_change_time = Some 100, last_gap = PInf\<rparr>)"
  by (simp add: run_simps)

subsection \<open>C4: no solution yet\<close>

text \<open>
  C4. A call whose solution count is zero does not stop the solver and returns the state
  it was given, both fields unchanged.
\<close>

theorem no_solution_continue_unchanged:
  "MIP_SOLCNT m = 0 \<Longrightarrow> callback p wh m now s = Inr (CONTINUE, s)"
  by (simp add: callback_def)

theorem no_solution_continue_unchanged_witness:
  "MIP_SOLCNT \<lparr>MIP_SOLCNT = 0, MIP_OBJBND = Fin 9000, MIP_OBJBST = Fin 10000\<rparr> = 0 \<and>
   callback script_params MIP \<lparr>MIP_SOLCNT = 0, MIP_OBJBND = Fin 9000, MIP_OBJBST = Fin 10000\<rparr> 7
       \<lparr>last_gap_change_time = Some 0, last_gap = Fin (1 / 10)\<rparr>
     = Inr (CONTINUE, \<lparr>last_gap_change_time = Some 0, last_gap = Fin (1 / 10)\<rparr>)"
  using no_solution_continue_unchanged
    [of "\<lparr>MIP_SOLCNT = 0, MIP_OBJBND = Fin 9000, MIP_OBJBST = Fin 10000\<rparr>"
        script_params MIP 7 "\<lparr>last_gap_change_time = Some 0, last_gap = Fin (1 / 10)\<rparr>"]
  by simp

subsection \<open>C5: the scenario with threshold 1e-4 and 15 seconds\<close>




subsection \<open>C6: repeated calls with a gap that does not improve\<close>



subsection \<open>C7: the stored gap never goes up\<close>

text \<open>
  C7. The threshold is not negative (the script's is 1e-4). From any state \<open>s1\<close> reached
  in a run, any further sequence of calls returns, and the stored gap after it is not
  greater than the stored gap in \<open>s1\<close>; unless it is not-a-number (which takes a
  non-finite objective or bound), it is less than or equal to it.
\<close>

theorem last_gap_never_increases:
  assumes eps: "0 \<le> epsilon_to_compare_gap p"
    and reach: "optimize_calls p cs1 CallbackData_init = Inr (ds1, s1)"
  shows "\<exists>ds2 s2. optimize_calls p cs2 s1 = Inr (ds2, s2) \<and>
           \<not> fgt (last_gap s2) (last_gap s1) \<and>
           (last_gap s2 = NaN \<or> fle (last_gap s2) (last_gap s1))"
proof -
  have "consistent s1"
    using reached_consistent [OF reach init_consistent] .
  then obtain ds2 s2 where r: "optimize_calls p cs2 s1 = Inr (ds2, s2)"
    using optimize_calls_total by blast
  have "noninc (last_gap s1) (last_gap s2)"
    using optimize_calls_noninc [OF eps r] .
  with r show ?thesis
    using noninc_not_fgt noninc_fle by blast
qed

theorem last_gap_never_increases_witness:
  "0 \<le> epsilon_to_compare_gap script_params \<and>
   optimize_calls script_params [snapshot 1 (Fin 10000) (Fin 9000) 0] CallbackData_init
     = Inr ([CONTINUE], \<lparr>last_gap_change_time = Some 0, last_gap = Fin (1 / 10)\<rparr>) \<and>
   (\<exists>ds2 s2. optimize_calls script_params [snapshot 1 (Fin 10000) (Fin 9050) 5]
                \<lparr>last_gap_change_time = Some 0, last_gap = Fin (1 / 10)\<rparr> = Inr (ds2, s2) \<and>
      \<not> fgt (last_gap s2) (Fin (1 / 10)) \<and>
      (last_gap s2 = NaN \<or> fle (last_gap s2) (Fin (1 / 10))))"
proof -
  have h1: "0 \<le> epsilon_to_compare_gap script_params"
    by (simp add: script_params_def)
  have h2: "optimize_calls script_params [snapshot 1 (Fin 10000) (Fin 9000) 0] CallbackData_init
     = Inr ([CONTINUE], \<lparr>last_gap_change_time = Some 0, last_gap = Fin (1 / 10)\<rparr>)"
    by (simp add: run_simps)
  show ?thesis
    using h1 h2
      last_gap_never_increases [OF h1 h2, of "[snapshot 1 (Fin 10000) (Fin 9050) 5]"]
    by simp
qed

subsection \<open>C8: when the time is set\<close>

text \<open>
  C8. The solution counts the branch-and-bound loop reports are not negative. Then a run
  from the initial state over any sequence of calls returns, and after it the stored time
  is set if and only if one of the calls came from the branch-and-bound loop with a
  positive solution count. The sequence is arbitrary, so this holds at every point of
  a run.
\<close>

theorem change_time_set_iff_solution_seen:
  assumes "\<forall>c\<in>set cs. call_where c = MIP \<longrightarrow> 0 \<le> MIP_SOLCNT (call_model c)"
  shows "\<exists>ds s. optimize_calls p cs CallbackData_init = Inr (ds, s) \<and>
           (last_gap_change_time s \<noteq> None \<longleftrightarrow>
              (\<exists>c\<in>set cs. call_where c = MIP \<and> 0 < MIP_SOLCNT (call_model c)))"
proof -
  obtain ds s where r: "optimize_calls p cs CallbackData_init = Inr (ds, s)"
    using optimize_calls_total [OF init_consistent] by blast
  have "last_gap_change_time CallbackData_init = None"
    by (simp add: CallbackData_init_def)
  with optimize_calls_time_set [OF r init_consistent assms] r show ?thesis
    by auto
qed

theorem change_time_set_iff_solution_seen_witness:
  "0 \<le> MIP_SOLCNT (call_model (snapshot 0 (Fin 0) (Fin 0) 0)) \<and>
   0 \<le> MIP_SOLCNT (call_model (snapshot 1 (Fin 10000) (Fin 9000) 1)) \<and>
   (\<exists>ds s. optimize_calls script_params
              [snapshot 0 (Fin 0) (Fin 0) 0, snapshot 1 (Fin 10000) (Fin 9000) 1]
              CallbackData_init = Inr (ds, s) \<and>
            last_gap_change_time s \<noteq> None)"
proof -
  have h: "\<forall>c\<in>set [snapshot 0 (Fin 0) (Fin 0) 0, snapshot 1 (Fin 10000) (Fin 9000) 1].
       call_where c = MIP \<longrightarrow> 0 \<le> MIP_SOLCNT (call_model c)"
    by (simp add: snapshot_def)
  show ?thesis
    using h change_time_set_iff_solution_seen [OF h, of script_params]
    by (simp add: snapshot_def)
qed

subsection \<open>C9: snapshots that are not valid\<close>

text \<open>
  C9 as stated does not hold: the callback checks nothing. A solution count of \<open>-1\<close> is
  not zero, so the call goes on, is not rejected, and changes the state.
\<close>

theorem negative_solcount_updates_state:
  "callback script_params MIP
     \<lparr>MIP_SOLCNT = - 1, MIP_OBJBND = Fin 9000, MIP_OBJBST = Fin 10000\<rparr> 0 CallbackData_init
   = Inr (CONTINUE, \<lparr>last_gap_change_time = Some 0, last_gap = Fin (1 / 10)\<rparr>) \<and>
   \<lparr>last_gap_change_time = Some 0, last_gap = Fin (1 / 10)\<rparr> \<noteq> CallbackData_init"
  by (simp add: run_simps)

text \<open>
  C9, amended. The callback rejects no snapshot: in every state reached in a run it
  returns a decision and a state for every input, non-finite objective and bound included,
  and a negative solution count is handled exactly as the solution count 1.
\<close>

theorem callback_rejects_nothing:
  assumes reach: "optimize_calls p cs CallbackData_init = Inr (ds, s)"
  shows "(\<exists>d s'. callback p wh m now s = Inr (d, s')) \<and>
         (MIP_SOLCNT m < 0 \<longrightarrow>
            callback p wh m now s = callback p wh (m\<lparr>MIP_SOLCNT := 1\<rparr>) now s)"
proof -
  have "consistent s"
    using reached_consistent [OF reach init_consistent] .
  then show ?thesis
    using callback_total [of s p wh m now] by (auto simp: callback_def)
qed

theorem callback_rejects_nothing_witness:
  "optimize_calls script_params [] CallbackData_init = Inr ([], CallbackData_init) \<and>
   callback script_params MIP
       \<lparr>MIP_SOLCNT = - 1, MIP_OBJBND = PInf, MIP_OBJBST = Fin 10000\<rparr> 0 CallbackData_init
     = Inr (CONTINUE, \<lparr>last_gap_change_time = Some 0, last_gap = PInf\<rparr>) \<and>
   callback script_params MIP
       \<lparr>MIP_SOLCNT = - 1, MIP_OBJBND = PInf, MIP_OBJBST = Fin 10000\<rparr> 0 CallbackData_init
     = callback script_params MIP
       \<lparr>MIP_SOLCNT = 1, MIP_OBJBND = PInf, MIP_OBJBST = Fin 10000\<rparr> 0 CallbackData_init"
proof -
  have h: "optimize_calls script_params [] CallbackData_init = Inr ([], CallbackData_init)"
    by simp
  show ?thesis
    using h callback_rejects_nothing [OF h, of MIP
        "\<lparr>MIP_SOLCNT = - 1, MIP_OBJBND = PInf, MIP_OBJBST = Fin 10000\<rparr>" 0]
    by (simp add: run_simps)
qed

subsection \<open>C10: stopping the solver changes nothing in the state\<close>



end
